theory Spec2Isabelle
  imports Complex_Main
begin

section \<open>Common types\<close>

text \<open>
  A JavaScript \<^verbatim>\<open>Date\<close> is compared through its number of milliseconds since the
  epoch, so a date is an integer. A thrown \<^verbatim>\<open>new Error(msg)\<close> is the value
  \<open>Inl (Error msg)\<close> of a sum type; the \<^verbatim>\<open>ValidationError\<close> with which
  \<^verbatim>\<open>save()\<close> rejects a document is \<open>Inl (ValidationError paths)\<close>, with the
  paths that failed. The time of a call (\<^verbatim>\<open>new Date()\<close>) is the argument
  \<open>now\<close>.
\<close>

type_synonym date = int

datatype error = Error (message: string) | ValidationError (paths: "string list")

type_synonym 'a result = "error + 'a"

section \<open>JavaScript numbers\<close>

text \<open>
  A \<^verbatim>\<open>number\<close> is an IEEE 754 double: \<open>NaN\<close>, an infinity, or a finite
  value, kept as the real number it denotes. The sign of zero is not kept: no comparison
  and none of the operations below tells \<open>-0\<close> from \<open>0\<close>.

  \<open>round_double\<close> rounds a real to the nearest double, ties to the even significand:
  the binade of \<open>x\<close> is \<open>2 ^ e \<le> \<bar>x\<bar> < 2 ^ (e + 1)\<close> with \<open>e\<close> not below
  \<open>-1022\<close> (below that the doubles are subnormal and keep the spacing of the lowest
  binade), the doubles of a binade are the multiples of \<open>2 ^ (e - 52)\<close>, and a result of
  \<open>2 ^ 1024\<close> or more is an infinity.
\<close>

datatype number = NaN | NegInf | Finite real | PosInf

definition pow2 :: "int \<Rightarrow> real" where
  "pow2 k = (if 0 \<le> k then 2 ^ nat k else 1 / 2 ^ nat (- k))"

definition binade :: "real \<Rightarrow> int" where
  "binade x = max (- 1022) \<lfloor>log 2 \<bar>x\<bar>\<rfloor>"

definition roundHalfEven :: "real \<Rightarrow> int" where
  "roundHalfEven x =
     (let f = \<lfloor>x\<rfloor>; r = x - of_int f in
      if r < 1 / 2 then f
      else if 1 / 2 < r then f + 1
      else if even f then f else f + 1)"

definition round_double :: "real \<Rightarrow> number" where
  "round_double x =
     (let q = pow2 (binade x - 52);
          y = of_int (roundHalfEven (\<bar>x\<bar> / q)) * q
      in if pow2 1024 \<le> y then (if x < 0 then NegInf else PosInf)
         else Finite (if x < 0 then - y else y))"

text \<open>A whole number, as a \<^verbatim>\<open>number\<close>.\<close>

definition whole :: "int \<Rightarrow> number" where
  "whole n = Finite (of_int n)"

fun js_neg :: "number \<Rightarrow> number" where
  "js_neg NaN = NaN"
| "js_neg NegInf = PosInf"
| "js_neg PosInf = NegInf"
| "js_neg (Finite x) = Finite (- x)"

text \<open>\<^verbatim>\<open>a + b\<close> and \<^verbatim>\<open>a - b\<close>.\<close>

fun js_add :: "number \<Rightarrow> number \<Rightarrow> number" where
  "js_add (Finite x) (Finite y) = round_double (x + y)"
| "js_add NaN b = NaN"
| "js_add a NaN = NaN"
| "js_add PosInf NegInf = NaN"
| "js_add NegInf PosInf = NaN"
| "js_add PosInf b = PosInf"
| "js_add a PosInf = PosInf"
| "js_add NegInf b = NegInf"
| "js_add a NegInf = NegInf"

definition js_sub :: "number \<Rightarrow> number \<Rightarrow> number" where
  "js_sub a b = js_add a (js_neg b)"

text \<open>
  \<^verbatim>\<open>a < b\<close> and \<^verbatim>\<open>a >= b\<close>: every comparison with \<open>NaN\<close> is false.
\<close>

fun js_lt :: "number \<Rightarrow> number \<Rightarrow> bool" where
  "js_lt (Finite x) (Finite y) \<longleftrightarrow> x < y"
| "js_lt NaN b \<longleftrightarrow> False"
| "js_lt a NaN \<longleftrightarrow> False"
| "js_lt PosInf b \<longleftrightarrow> False"
| "js_lt a NegInf \<longleftrightarrow> False"
| "js_lt a PosInf \<longleftrightarrow> True"
| "js_lt NegInf b \<longleftrightarrow> True"

definition js_ge :: "number \<Rightarrow> number \<Rightarrow> bool" where
  "js_ge a b \<longleftrightarrow> a \<noteq> NaN \<and> b \<noteq> NaN \<and> \<not> js_lt a b"

text \<open>\<^verbatim>\<open>Math.max(a, b)\<close> and \<^verbatim>\<open>Math.min(a, b)\<close>.\<close>

definition js_max :: "number \<Rightarrow> number \<Rightarrow> number" where
  "js_max a b = (if a = NaN \<or> b = NaN then NaN else if js_lt a b then b else a)"

definition js_min :: "number \<Rightarrow> number \<Rightarrow> number" where
  "js_min a b = (if a = NaN \<or> b = NaN then NaN else if js_lt b a then b else a)"

section \<open>Inventory model\<close>

datatype DiscountType = PERCENTAGE | FIXED_AMOUNT | BUY_ONE_GET_ONE | FREE_SHIPPING

record IDiscount =
  discountId :: string
  code :: string
  discount_type :: DiscountType
  discount_value :: real
  minPurchase :: real
  maxDiscount :: real
  validFrom :: date
  validUntil :: date
  isActive :: bool

text \<open>
  The inventory document. The type of its counters is a parameter: \<^verbatim>\<open>updateStock\<close>
  and the stock tests are modelled on whole-number counters (\<^typ>\<open>int\<close>), the
  reservation methods on JavaScript numbers (\<^typ>\<open>number\<close>), where rounding and the
  validation of \<^verbatim>\<open>save()\<close> show. Prices are \<^typ>\<open>real\<close>, that is, without
  the rounding of doubles.
\<close>

record 'n IInventory =
  productId :: string
  ownerId :: string
  currentStock :: 'n
  reservedStock :: 'n
  reorderLevel :: 'n
  sellingPrice :: real
  discounts :: "IDiscount list"
  availability :: bool
  lastRestocked :: date

text \<open>
  \<^verbatim>\<open>updateStock\<close> adds to \<^verbatim>\<open>currentStock\<close> before it tests the sign,
  so the document it throws from already carries the new count.
\<close>

definition updateStock :: "int IInventory \<Rightarrow> date \<Rightarrow> int \<Rightarrow> unit result \<times> int IInventory" where
  "updateStock doc now quantity =
     (let doc1 = doc\<lparr>currentStock := currentStock doc + quantity\<rparr> in
      if currentStock doc1 < 0 then (Inl (Error ''Insufficient stock''), doc1)
      else
        let doc2 = (if quantity > 0 then doc1\<lparr>lastRestocked := now\<rparr> else doc1)
        in (Inr (), doc2))"

subsection \<open>Saving a document\<close>

text \<open>
  \<^verbatim>\<open>save()\<close> validates the document against the schema before it stores it and
  rejects with a \<^verbatim>\<open>ValidationError\<close> when a validator fails; nothing is stored
  then. The validators of \<^verbatim>\<open>InventorySchema\<close> and \<^verbatim>\<open>DiscountSchema\<close>
  on the fields of the model are the \<^verbatim>\<open>min: 0\<close> ones.
\<close>

definition validDiscount :: "IDiscount \<Rightarrow> bool" where
  "validDiscount d \<longleftrightarrow> 0 \<le> discount_value d \<and> 0 \<le> minPurchase d \<and> 0 \<le> maxDiscount d"

definition validationErrors :: "number IInventory \<Rightarrow> string list" where
  "validationErrors doc =
     (if js_ge (currentStock doc) (Finite 0) then [] else [''currentStock'']) @
     (if js_ge (reservedStock doc) (Finite 0) then [] else [''reservedStock'']) @
     (if js_ge (reorderLevel doc) (Finite 0) then [] else [''reorderLevel'']) @
     (if 0 \<le> sellingPrice doc then [] else [''sellingPrice'']) @
     (if list_all validDiscount (discounts doc) then [] else [''discounts''])"

text \<open>
  An assignment to a \<^verbatim>\<open>Number\<close> path casts the value. \<open>NaN\<close> does not cast:
  the path keeps its value and the failure is reported by the next validation.
\<close>

definition assignNumber :: "string \<Rightarrow> number \<Rightarrow> number \<Rightarrow> number \<times> string list" where
  "assignNumber path old v = (if v = NaN then (old, [path]) else (v, []))"

definition save :: "string list \<Rightarrow> number IInventory \<Rightarrow> unit result" where
  "save castErrors doc =
     (let errs = castErrors @ validationErrors doc in
      if errs = [] then Inr () else Inl (ValidationError errs))"

subsection \<open>Reservations\<close>

text \<open>
  Each method returns its result, or the error thrown, together with the document as it
  leaves it in memory. When \<^verbatim>\<open>save()\<close> throws, the method throws and the stored
  document is the one from before the call.
\<close>

definition reserveStock ::
    "number IInventory \<Rightarrow> number \<Rightarrow> bool result \<times> number IInventory" where
  "reserveStock doc quantity =
     (let availableStock = js_sub (currentStock doc) (reservedStock doc) in
      if js_ge availableStock quantity then
        (case assignNumber ''reservedStock'' (reservedStock doc)
                (js_add (reservedStock doc) quantity) of
           (r, castErrors) \<Rightarrow>
             let doc1 = doc\<lparr>reservedStock := r\<rparr> in
             (case save castErrors doc1 of
                Inl e \<Rightarrow> (Inl e, doc1)
              | Inr u \<Rightarrow> (Inr True, doc1)))
      else (Inr False, doc))"

definition releaseReservedStock ::
    "number IInventory \<Rightarrow> number \<Rightarrow> unit result \<times> number IInventory" where
  "releaseReservedStock doc quantity =
     (case assignNumber ''reservedStock'' (reservedStock doc)
             (js_max (Finite 0) (js_sub (reservedStock doc) quantity)) of
        (r, castErrors) \<Rightarrow>
          let doc1 = doc\<lparr>reservedStock := r\<rparr> in
          (case save castErrors doc1 of
             Inl e \<Rightarrow> (Inl e, doc1)
           | Inr u \<Rightarrow> (Inr (), doc1)))"

definition confirmReservedStock ::
    "number IInventory \<Rightarrow> number \<Rightarrow> unit result \<times> number IInventory" where
  "confirmReservedStock doc quantity =
     (if js_ge (reservedStock doc) quantity then
        (case assignNumber ''reservedStock'' (reservedStock doc)
                (js_sub (reservedStock doc) quantity) of
           (r, castErrors1) \<Rightarrow>
             (case assignNumber ''currentStock'' (currentStock doc)
                     (js_sub (currentStock doc) quantity) of
                (c, castErrors2) \<Rightarrow>
                  let doc1 = doc\<lparr>reservedStock := r, currentStock := c\<rparr> in
                  (case save (castErrors1 @ castErrors2) doc1 of
                     Inl e \<Rightarrow> (Inl e, doc1)
                   | Inr u \<Rightarrow> (Inr (), doc1))))
      else (Inl (Error ''Insufficient reserved stock''), doc))"

definition isLowStock :: "int IInventory \<Rightarrow> bool" where
  "isLowStock doc \<longleftrightarrow> currentStock doc \<le> reorderLevel doc"

definition availableStock :: "int IInventory \<Rightarrow> int" where
  "availableStock doc = currentStock doc - reservedStock doc"

subsection \<open>Price with discounts\<close>




subsection \<open>The price as the specification words it\<close>









subsection \<open>Example documents\<close>

text \<open>
  An inventory record with 10 units on hand, 4 of them reserved, and no discount.
\<close>

definition stockExample :: "int IInventory" where
  "stockExample =
     \<lparr>productId = ''p1'', ownerId = ''o1'', currentStock = 10, reservedStock = 4,
      reorderLevel = 10, sellingPrice = 100, discounts = [], availability = True,
      lastRestocked = 0\<rparr>"

text \<open>
  The same record with its counters as JavaScript numbers: \<open>stockDoc c r\<close> has
  \<open>c\<close> on hand and \<open>r\<close> reserved, and passes validation when neither is negative.
\<close>

definition stockDoc :: "number \<Rightarrow> number \<Rightarrow> number IInventory" where
  "stockDoc c r =
     \<lparr>productId = ''p1'', ownerId = ''o1'', currentStock = c, reservedStock = r,
      reorderLevel = whole 10, sellingPrice = 100, discounts = [], availability = True,
      lastRestocked = 0\<rparr>"



section \<open>Order model\<close>

datatype OrderStatus =
  PENDING | CONFIRMED | PROCESSING | SHIPPED | OUT_FOR_DELIVERY | DELIVERED | CANCELLED | RETURNED

text \<open>
  \<^verbatim>\<open>PaymentStatus\<close> shares three member names with \<^verbatim>\<open>OrderStatus\<close>;
  its constructors are always written qualified (\<open>PaymentStatus.CANCELLED\<close>), as the
  source writes them.
\<close>

datatype PaymentStatus =
  PENDING | PROCESSING | COMPLETED | FAILED | REFUNDED | CANCELLED

record StatusHistoryEntry =
  entry_status :: OrderStatus
  entry_timestamp :: date
  entry_notes :: "string option"

record ITrackingInfo =
  currentStatus :: OrderStatus
  statusHistory :: "StatusHistoryEntry list"

record IOrderItem =
  item_productId :: string
  item_name :: string
  item_quantity :: int
  unitPrice :: real
  subtotal :: real

record IOrder =
  orderId :: string
  customerId :: string
  retailerId :: string
  items :: "IOrderItem list"
  status :: OrderStatus
  paymentStatus :: PaymentStatus
  totalAmount :: real
  trackingInfo :: ITrackingInfo
  order_notes :: "string option"


definition calculateTotal :: "IOrder \<Rightarrow> real" where
  "calculateTotal ord = foldl (\<lambda>total item. total + subtotal item) 0 (items ord)"


definition markAsPaid :: "IOrder \<Rightarrow> unit result \<times> IOrder" where
  "markAsPaid ord = (Inr (), ord\<lparr>paymentStatus := PaymentStatus.COMPLETED\<rparr>)"




subsection \<open>Example orders\<close>



section \<open>Authentication service\<close>

datatype UserType = CUSTOMER | RETAILER | WHOLESALER | ADMIN

text \<open>
  The user document. \<^verbatim>\<open>password\<close> is declared \<^verbatim>\<open>select: false\<close>, so a
  loaded document may lack it: the field is optional. \<open>isActive\<close> is also a field of
  \<open>IDiscount\<close>; below this point the discount's field is written \<open>IDiscount.isActive\<close>.
  \<^verbatim>\<open>UserSchema\<close> declares no \<^verbatim>\<open>lastLogin\<close> path, so the document has
  no such field.
\<close>

record IUser =
  user_id :: string
  email :: string
  phone :: string
  password :: "string option"
  userType :: UserType
  isVerified :: bool
  isActive :: bool
  lastActive :: date

record TokenPayload =
  userId :: string
  payload_email :: string
  payload_userType :: UserType

record TokenPair =
  accessToken :: string
  refreshToken :: string

record LoginData =
  login_email :: string
  login_password :: string

text \<open>
  \<^verbatim>\<open>jwt.service\<close> is imported by \<^verbatim>\<open>auth.service.ts\<close> and is not among the
  sources. Signing and verification are taken as parameters: \<open>verifyRefreshToken\<close>
  returns the payload or the error it throws, \<open>generateTokenPair\<close> issues a pair
  for a payload. A value of this record is the service at the moment of one call.
\<close>

record JwtService =
  verifyRefreshToken :: "string \<Rightarrow> TokenPayload result"
  generateTokenPair :: "TokenPayload \<Rightarrow> TokenPair"

text \<open>
  The state the service works on: the \<^verbatim>\<open>User\<close> collection, in the order in which
  the database scans it, and the token store.
\<close>

record AuthState =
  users :: "IUser list"
  refreshTokens :: "string \<rightharpoonup> string"


text \<open>
  Modelled from the spec: \<^verbatim>\<open>jwtService.storeRefreshToken\<close> (jwt.service.ts is
  missing). Storing overwrites the token kept for the user.
\<close>

definition storeRefreshToken :: "AuthState \<Rightarrow> string \<Rightarrow> string \<Rightarrow> AuthState" where
  "storeRefreshToken st uid tok = st\<lparr>refreshTokens := (refreshTokens st)(uid \<mapsto> tok)\<rparr>"

text \<open>
  The \<^verbatim>\<open>email\<close> path is declared \<^verbatim>\<open>lowercase: true, trim: true\<close>: stored
  emails are in that form and the value of a query filter on the path is brought to it
  before the lookup. Characters are bytes here; the letters and the white space of ASCII
  are the ones converted.
\<close>

definition toLowerChar :: "char \<Rightarrow> char" where
  "toLowerChar c =
     (case map_of (zip ''ABCDEFGHIJKLMNOPQRSTUVWXYZ'' ''abcdefghijklmnopqrstuvwxyz'') c of
        Some l \<Rightarrow> l
      | None \<Rightarrow> c)"

definition toLowerCase :: "string \<Rightarrow> string" where
  "toLowerCase s = map toLowerChar s"

definition isWhiteSpace :: "char \<Rightarrow> bool" where
  "isWhiteSpace c \<longleftrightarrow> (let n = of_char c :: nat in n = 32 \<or> (9 \<le> n \<and> n \<le> 13))"

definition trim :: "string \<Rightarrow> string" where
  "trim s = rev (dropWhile isWhiteSpace (rev (dropWhile isWhiteSpace s)))"

definition findOneByEmail :: "AuthState \<Rightarrow> string \<Rightarrow> IUser option" where
  "findOneByEmail st e = find (\<lambda>u. email u = toLowerCase (trim e)) (users st)"


definition saveUser :: "AuthState \<Rightarrow> IUser \<Rightarrow> AuthState" where
  "saveUser st u = st\<lparr>users := map (\<lambda>v. if user_id v = user_id u then u else v) (users st)\<rparr>"

text \<open>
  \<^verbatim>\<open>comparePassword\<close> returns what \<^verbatim>\<open>bcrypt.compare\<close> returns and
  \<^verbatim>\<open>false\<close> when it throws, as it does on a document without a password. The
  library function is the parameter \<open>bcrypt_compare\<close>.
\<close>

definition comparePassword :: "(string \<Rightarrow> string \<Rightarrow> bool result) \<Rightarrow> IUser \<Rightarrow> string \<Rightarrow> bool" where
  "comparePassword bcrypt_compare user candidatePassword =
     (case password user of
        None \<Rightarrow> False
      | Some hash \<Rightarrow>
          (case bcrypt_compare candidatePassword hash of Inl e \<Rightarrow> False | Inr b \<Rightarrow> b))"

text \<open>The response carries the user without its password (when it has a non-empty one).\<close>

definition withoutPassword :: "IUser \<Rightarrow> IUser" where
  "withoutPassword user =
     (case password user of
        None \<Rightarrow> user
      | Some h \<Rightarrow> if h = [] then user else user\<lparr>password := None\<rparr>)"

text \<open>
  On success \<^verbatim>\<open>login\<close> assigns \<^verbatim>\<open>user.lastLogin = new Date()\<close> and
  saves. \<^verbatim>\<open>lastLogin\<close> being no path of the schema, the assignment is not
  tracked: \<^verbatim>\<open>save()\<close> stores, and \<^verbatim>\<open>toObject()\<close> returns, the document
  as it was loaded.
\<close>

definition AuthService_login ::
    "JwtService \<Rightarrow> (string \<Rightarrow> string \<Rightarrow> bool result) \<Rightarrow> AuthState \<Rightarrow> date \<Rightarrow> LoginData
      \<Rightarrow> (IUser \<times> TokenPair) result \<times> AuthState" where
  "AuthService_login jwt bcrypt_compare st now data =
     (case findOneByEmail st (login_email data) of
        None \<Rightarrow> (Inl (Error ''Invalid email or password''), st)
      | Some user \<Rightarrow>
          if \<not> isActive user
          then (Inl (Error ''Account is deactivated. Please contact support.''), st)
          else if \<not> comparePassword bcrypt_compare user (login_password data)
          then (Inl (Error ''Invalid email or password''), st)
          else
            let st1 = saveUser st user;
                uid = user_id user;
                tokens = generateTokenPair jwt
                  \<lparr>userId = uid, payload_email = email user, payload_userType = userType user\<rparr>;
                st2 = storeRefreshToken st1 uid (refreshToken tokens)
            in (Inr (withoutPassword user, tokens), st2))"


subsection \<open>The token service, from the specification\<close>



















subsection \<open>The login controller\<close>

text \<open>
  \<^verbatim>\<open>String.prototype.includes\<close>: the argument occurs somewhere in the string.
\<close>

fun includes_str :: "string \<Rightarrow> string \<Rightarrow> bool" where
  "includes_str [] sub \<longleftrightarrow> sub = []"
| "includes_str (c # cs) sub \<longleftrightarrow> take (length sub) (c # cs) = sub \<or> includes_str cs sub"

record Response =
  statusCode :: nat
  success :: bool
  res_message :: string
  res_data :: "(IUser \<times> TokenPair) option"

definition controller_login ::
    "JwtService \<Rightarrow> (string \<Rightarrow> string \<Rightarrow> bool result) \<Rightarrow> AuthState \<Rightarrow> date \<Rightarrow> LoginData
      \<Rightarrow> Response \<times> AuthState" where
  "controller_login jwt bcrypt_compare st now body =
     (case AuthService_login jwt bcrypt_compare st now body of
        (Inr (user, tokens), st1) \<Rightarrow>
          (\<lparr>statusCode = 200, success = True, res_message = ''Login successful'',
            res_data = Some (user, tokens)\<rparr>, st1)
      | (Inl err, st1) \<Rightarrow>
          (\<lparr>statusCode = (if includes_str (message err) ''deactivated'' then 403 else 401),
            success = False,
            res_message = (if message err \<noteq> [] then message err else ''Login failed''),
            res_data = None\<rparr>, st1))"


subsection \<open>Example users and services\<close>

definition alice :: IUser where
  "alice =
     \<lparr>user_id = ''u1'', email = ''alice@example.com'', phone = ''+911234567890'',
      password = Some ''hash-of-secret'', userType = CUSTOMER, isVerified = True,
      isActive = True, lastActive = 0\<rparr>"

definition bob :: IUser where
  "bob =
     \<lparr>user_id = ''u2'', email = ''bob@example.com'', phone = ''+911234567891'',
      password = Some ''hash-of-hunter2'', userType = RETAILER, isVerified = True,
      isActive = False, lastActive = 0\<rparr>"

text \<open>A stand-in for \<^verbatim>\<open>bcrypt.compare\<close>: the hash of \<open>p\<close> is \<open>''hash-of-'' @ p\<close>.\<close>

definition toyCompare :: "string \<Rightarrow> string \<Rightarrow> bool result" where
  "toyCompare candidate hash = Inr (hash = ''hash-of-'' @ candidate)"

text \<open>
  A stand-in for the token service: the tokens \<open>''r0''\<close> and \<open>''r1''\<close> verify as
  refresh tokens of user \<open>''u1''\<close>, and the pair issued next has the refresh token
  \<open>''r1''\<close>.
\<close>

definition toyJwt :: JwtService where
  "toyJwt =
     \<lparr>verifyRefreshToken = (\<lambda>tok.
         if tok = ''r0'' \<or> tok = ''r1''
         then Inr \<lparr>userId = ''u1'', payload_email = ''alice@example.com'',
                   payload_userType = CUSTOMER\<rparr>
         else Inl (Error ''jwt malformed'')),
      generateTokenPair = (\<lambda>p. \<lparr>accessToken = ''a1'', refreshToken = ''r1''\<rparr>)\<rparr>"

definition authExample :: AuthState where
  "authExample = \<lparr>users = [alice, bob], refreshTokens = [''u1'' \<mapsto> ''r0'']\<rparr>"








section \<open>Rounding to a double\<close>

lemma pow2_powr: "pow2 k = 2 powr (of_int k)"
  by (simp add: pow2_def powr_real_of_int divide_inverse)

lemma pow2_pos: "0 < pow2 k"
  by (simp add: pow2_def)

lemma roundHalfEven_of_int: "roundHalfEven (of_int m) = m"
  by (simp add: roundHalfEven_def)

lemma roundHalfEven_nonneg: "0 \<le> x \<Longrightarrow> 0 \<le> roundHalfEven x"
  by (auto simp: roundHalfEven_def Let_def)

lemma binadeI:
  assumes "pow2 k \<le> \<bar>x\<bar>" "\<bar>x\<bar> < pow2 (k + 1)" "- 1022 \<le> k"
  shows "binade x = k"
proof -
  have "0 < \<bar>x\<bar>" using assms(1) pow2_pos [of k] by linarith
  then have "\<lfloor>log 2 \<bar>x\<bar>\<rfloor> = k"
    using assms(1,2) by (simp add: floor_log_eq_powr_iff pow2_powr)
  with assms(3) show ?thesis by (simp add: binade_def)
qed

text \<open>A real that is a multiple of the spacing of its binade is a double.\<close>

lemma round_double_exact:
  assumes "\<bar>x\<bar> / pow2 (binade x - 52) = of_int m" "\<bar>x\<bar> < pow2 1024"
  shows "round_double x = Finite x"
proof -
  define q where "q = pow2 (binade x - 52)"
  have q: "0 < q" unfolding q_def by (rule pow2_pos)
  have r: "roundHalfEven (\<bar>x\<bar> / q) = m"
    using assms(1) by (simp add: q_def roundHalfEven_of_int)
  have y: "of_int m * q = \<bar>x\<bar>"
    using assms(1) q by (simp add: q_def field_simps)
  have "round_double x =
      (if pow2 1024 \<le> of_int m * q then (if x < 0 then NegInf else PosInf)
       else Finite (if x < 0 then - (of_int m * q) else of_int m * q))"
    unfolding round_double_def Let_def q_def [symmetric] r ..
  also have "\<dots> = Finite x"
    using assms(2) unfolding y by auto
  finally show ?thesis .
qed

lemma binade_int_le:
  assumes "n \<noteq> 0" "\<bar>n\<bar> \<le> 2 ^ 53"
  shows "0 \<le> binade (of_int n)" "binade (of_int n) \<le> 53"
    "binade (of_int n) = 53 \<Longrightarrow> \<bar>n\<bar> = 2 ^ 53"
proof -
  let ?x = "\<bar>real_of_int n\<bar>"
  have x1: "1 \<le> ?x" using assms(1) by (simp flip: of_int_abs)
  have x2: "?x \<le> 2 ^ 53" using assms(2) by (simp flip: of_int_abs)
  have l0: "0 \<le> log 2 ?x" using x1 by simp
  have l53: "log 2 ?x \<le> 53" using x1 x2 by (simp add: log_le_iff)
  from l0 have f0: "0 \<le> \<lfloor>log 2 ?x\<rfloor>" by simp
  from l53 have f53: "\<lfloor>log 2 ?x\<rfloor> \<le> 53" by (simp add: floor_le_iff)
  from f0 show "0 \<le> binade (of_int n)" by (simp add: binade_def)
  from f53 show "binade (of_int n) \<le> 53" by (simp add: binade_def)
  assume "binade (of_int n) = 53"
  then have "\<lfloor>log 2 ?x\<rfloor> = 53"
    using f0 by (simp add: binade_def max_def split: if_splits)
  then have "53 \<le> log 2 ?x" by linarith
  then have "2 ^ 53 \<le> ?x" using x1 by (simp add: le_log_iff)
  with x2 have "?x = 2 ^ 53" by linarith
  then show "\<bar>n\<bar> = 2 ^ 53" by (simp flip: of_int_abs)
qed

lemma round_double_zero: "round_double 0 = Finite 0"
  using roundHalfEven_of_int [of 0] pow2_pos [of 1024]
  by (simp add: round_double_def)

text \<open>Every whole number of magnitude at most \<open>2 ^ 53\<close> is a double.\<close>

lemma round_double_of_int:
  assumes "\<bar>n\<bar> \<le> 2 ^ 53"
  shows "round_double (of_int n) = Finite (of_int n)"
proof (cases "n = 0")
  case True
  then show ?thesis by (simp add: round_double_zero)
next
  case False
  note b = binade_int_le [OF False assms]
  let ?b = "binade (of_int n)"
  have small: "\<bar>real_of_int n\<bar> < pow2 1024"
  proof -
    have "\<bar>real_of_int n\<bar> \<le> 2 ^ 53" using assms by (simp flip: of_int_abs)
    also have "(2::real) ^ 53 < 2 ^ 1024" by (rule power_strict_increasing) simp_all
    finally show ?thesis by (simp add: pow2_def)
  qed
  show ?thesis
  proof (cases "?b = 53")
    case True
    from b(3) [OF True] have "\<bar>real_of_int n\<bar> = 2 ^ 53" by (simp flip: of_int_abs)
    then have "\<bar>real_of_int n\<bar> / pow2 (?b - 52) = of_int (2 ^ 52)"
      by (simp add: True pow2_def)
    from round_double_exact [OF this small] show ?thesis .
  next
    case False
    with b(2) have le: "?b \<le> 52" by simp
    then have "pow2 (?b - 52) = 1 / 2 ^ nat (52 - ?b)"
      by (cases "?b = 52") (simp_all add: pow2_def)
    then have "\<bar>real_of_int n\<bar> / pow2 (?b - 52) = of_int (\<bar>n\<bar> * 2 ^ nat (52 - ?b))"
      by simp
    from round_double_exact [OF this small] show ?thesis .
  qed
qed

text \<open>Rounding keeps the sign.\<close>

lemma round_double_sign:
  "0 \<le> x \<Longrightarrow> round_double x = PosInf \<or> (\<exists>y. round_double x = Finite y \<and> 0 \<le> y)"
  "x \<le> 0 \<Longrightarrow> round_double x = NegInf \<or> (\<exists>y. round_double x = Finite y \<and> y \<le> 0)"
proof -
  define q where "q = pow2 (binade x - 52)"
  have q: "0 < q" unfolding q_def by (rule pow2_pos)
  have "0 \<le> \<bar>x\<bar> / q" using q by simp
  then have "0 \<le> roundHalfEven (\<bar>x\<bar> / q)" by (rule roundHalfEven_nonneg)
  then have y: "0 \<le> real_of_int (roundHalfEven (\<bar>x\<bar> / q)) * q" using q by simp
  show "0 \<le> x \<Longrightarrow> round_double x = PosInf \<or> (\<exists>y. round_double x = Finite y \<and> 0 \<le> y)"
    using y unfolding round_double_def Let_def q_def [symmetric] by auto
  show "x \<le> 0 \<Longrightarrow> round_double x = NegInf \<or> (\<exists>y. round_double x = Finite y \<and> y \<le> 0)"
  proof (cases "x = 0")
    case True
    then show ?thesis by (simp add: round_double_zero)
  next
    case False
    assume "x \<le> 0"
    with False have "x < 0" by simp
    then show ?thesis
      using y unfolding round_double_def Let_def q_def [symmetric] by auto
  qed
qed

text \<open>
  Rounding a positive real, given its binade \<open>k\<close> and the nearest multiple \<open>m\<close> of the
  spacing.
\<close>

lemma round_double_eval:
  assumes "pow2 k \<le> x" "x < pow2 (k + 1)" "- 1022 \<le> k"
      and "roundHalfEven (x / pow2 (k - 52)) = m"
      and "of_int m * pow2 (k - 52) < pow2 1024"
  shows "round_double x = Finite (of_int m * pow2 (k - 52))"
proof -
  have pos: "0 < x" using assms(1) pow2_pos [of k] by linarith
  then have ax: "\<bar>x\<bar> = x" by simp
  have b: "binade x = k" using assms(1-3) by (intro binadeI) (simp_all add: ax)
  show ?thesis
    using assms(4,5) pos unfolding round_double_def Let_def b ax by simp
qed

lemma round_double_not_NaN [simp]: "round_double x \<noteq> NaN"
  by (simp add: round_double_def Let_def)

lemma js_ge_round_nonneg: "0 \<le> x \<Longrightarrow> js_ge (round_double x) (Finite 0)"
  using round_double_sign(1) [of x] by (auto simp: js_ge_def)

lemma js_max_zero_round:
  "js_max (Finite 0) (round_double x) = (if 0 \<le> x then round_double x else Finite 0)"
proof (cases "0 \<le> x")
  case True
  with round_double_sign(1) [of x] show ?thesis
    by (auto simp: js_max_def)
next
  case False
  then have "x \<le> 0" by simp
  from round_double_sign(2) [OF this] False show ?thesis
    by (auto simp: js_max_def)
qed

lemma js_sub_Finite: "js_sub (Finite x) (Finite y) = round_double (x - y)"
  by (simp add: js_sub_def)

lemma js_min_Finite: "js_min (Finite k) (Finite r) = Finite (min k r)"
  by (simp add: js_min_def min_def)

lemma js_lt_not_ge: "js_lt a b \<Longrightarrow> \<not> js_ge a b"
  by (simp add: js_ge_def)

subsection \<open>Whole numbers\<close>

text \<open>Sums and differences of whole numbers are exact up to \<open>2 ^ 53\<close>.\<close>

lemma js_add_whole: "\<bar>a + b\<bar> \<le> 2 ^ 53 \<Longrightarrow> js_add (whole a) (whole b) = whole (a + b)"
  using round_double_of_int [of "a + b"] by (simp add: whole_def)

lemma js_sub_whole: "\<bar>a - b\<bar> \<le> 2 ^ 53 \<Longrightarrow> js_sub (whole a) (whole b) = whole (a - b)"
  using round_double_of_int [of "a - b"] by (simp add: whole_def js_sub_def)

lemma js_ge_whole [simp]: "js_ge (whole a) (whole b) \<longleftrightarrow> b \<le> a"
  by (auto simp: whole_def js_ge_def)

lemma js_lt_whole [simp]: "js_lt (whole a) (whole b) \<longleftrightarrow> a < b"
  by (simp add: whole_def)

lemma whole_eq [simp]: "whole a = whole b \<longleftrightarrow> a = b"
  by (simp add: whole_def)

lemma whole_not_NaN [simp]: "whole a \<noteq> NaN"
  by (simp add: whole_def)

lemma js_ge_zero_whole [simp]: "js_ge (whole a) (Finite 0) \<longleftrightarrow> 0 \<le> a"
  by (auto simp: whole_def js_ge_def)

lemma js_lt_whole_zero: "js_lt (whole a) (Finite 0) \<longleftrightarrow> a < 0"
  by (simp add: whole_def)

lemma js_max_zero_whole: "js_max (Finite 0) (whole a) = whole (max 0 a)"
  by (simp add: js_max_def whole_def max_def)

text \<open>
  Between \<open>2 ^ 53\<close> and \<open>2 ^ 54\<close> the doubles are the even numbers: a whole number
  there rounds to a whole number at most 1 away.
\<close>

lemma roundHalfEven_near: "\<bar>of_int (roundHalfEven t) - t\<bar> \<le> 1 / 2"
  unfolding roundHalfEven_def Let_def by (auto simp: abs_le_iff)

lemma round_double_near:
  assumes "2 ^ 53 \<le> \<bar>n\<bar>" "\<bar>n\<bar> \<le> 2 ^ 54"
  shows "\<exists>m. round_double (of_int n) = whole m \<and> \<bar>m - n\<bar> \<le> 1"
proof (cases "\<bar>n\<bar> = 2 ^ 54")
  case True
  have big: "(2::real) ^ 54 < 2 ^ 1024" by (rule power_strict_increasing) simp_all
  have ax: "\<bar>real_of_int n\<bar> = 2 ^ 54" using True by (simp flip: of_int_abs)
  then have b: "binade (of_int n) = 54"
    by (intro binadeI) (simp_all add: pow2_def)
  have "\<bar>real_of_int n\<bar> / pow2 (binade (of_int n) - 52) = of_int (2 ^ 52)"
    by (simp add: b ax pow2_def)
  moreover have "\<bar>real_of_int n\<bar> < pow2 1024" using big by (simp add: ax pow2_def)
  ultimately have "round_double (of_int n) = Finite (of_int n)"
    by (rule round_double_exact)
  then show ?thesis by (intro exI [of _ n]) (simp add: whole_def)
next
  case False
  with assms have lt: "\<bar>n\<bar> < 2 ^ 54" by simp
  let ?x = "real_of_int n"
  have lo: "2 ^ 53 \<le> \<bar>?x\<bar>" using assms(1) by (simp flip: of_int_abs)
  have hi: "\<bar>?x\<bar> < 2 ^ 54" using lt by (simp flip: of_int_abs)
  have b: "binade ?x = 53"
    using lo hi by (intro binadeI) (simp_all add: pow2_def)
  define m where "m = roundHalfEven (\<bar>?x\<bar> / 2)"
  have near: "\<bar>of_int m - \<bar>?x\<bar> / 2\<bar> \<le> 1 / 2"
    unfolding m_def by (rule roundHalfEven_near)
  have n1: "real_of_int m - \<bar>?x\<bar> / 2 \<le> 1 / 2" and n2: "- (1 / 2) \<le> real_of_int m - \<bar>?x\<bar> / 2"
    using near by linarith+
  have m_le: "real_of_int m \<le> 2 ^ 54"
  proof -
    have "real_of_int m \<le> \<bar>?x\<bar> / 2 + 1 / 2" using near by linarith
    also have "\<dots> \<le> 2 ^ 54 / 2 + 1 / 2" using hi by simp
    also have "\<dots> \<le> (2::real) ^ 54" by simp
    finally show ?thesis .
  qed
  have big: "(2::real) ^ 55 < 2 ^ 1024" by (rule power_strict_increasing) simp_all
  have nover: "\<not> pow2 1024 \<le> real_of_int m * 2"
    using m_le big by (simp add: pow2_def)
  have r: "round_double ?x = Finite (if ?x < 0 then - (of_int m * 2) else of_int m * 2)"
    using nover unfolding round_double_def Let_def b m_def [symmetric]
    by (simp add: pow2_def m_def)
  show ?thesis
  proof (cases "n < 0")
    case True
    then have "\<bar>?x\<bar> = - ?x" by simp
    with n1 n2 have "- (real_of_int m * 2) - ?x \<le> 1" "- 1 \<le> - (real_of_int m * 2) - ?x"
      by linarith+
    then have "- (m * 2) - n \<le> 1" "- 1 \<le> - (m * 2) - n" by linarith+
    then have "\<bar>- (m * 2) - n\<bar> \<le> 1" by linarith
    with r True show ?thesis
      by (intro exI [of _ "- (m * 2)"]) (simp add: whole_def)
  next
    case False
    then have "\<bar>?x\<bar> = ?x" by simp
    with n1 n2 have "real_of_int m * 2 - ?x \<le> 1" "- 1 \<le> real_of_int m * 2 - ?x"
      by linarith+
    then have "m * 2 - n \<le> 1" "- 1 \<le> m * 2 - n" by linarith+
    then have "\<bar>m * 2 - n\<bar> \<le> 1" by linarith
    with r False show ?thesis
      by (intro exI [of _ "m * 2"]) (simp add: whole_def)
  qed
qed

lemma js_add_whole_near:
  assumes "\<bar>a + b\<bar> \<le> 2 ^ 54"
  shows "\<exists>m. js_add (whole a) (whole b) = whole m \<and> \<bar>m - (a + b)\<bar> \<le> 1"
proof (cases "\<bar>a + b\<bar> \<le> 2 ^ 53")
  case True
  then show ?thesis by (intro exI [of _ "a + b"]) (simp add: js_add_whole)
next
  case False
  then have "2 ^ 53 \<le> \<bar>a + b\<bar>" by simp
  from round_double_near [OF this assms] show ?thesis
    by (simp add: whole_def)
qed

lemma js_sub_whole_near:
  assumes "\<bar>a - b\<bar> \<le> 2 ^ 54"
  shows "\<exists>m. js_sub (whole a) (whole b) = whole m \<and> \<bar>m - (a - b)\<bar> \<le> 1"
  using js_add_whole_near [of a "- b"] assms by (simp add: js_sub_def whole_def)

subsection \<open>Sums that round\<close>

text \<open>
  Above \<open>2 ^ 53\<close> the doubles are the even numbers: \<open>2 ^ 53 + 3\<close> and \<open>2 ^ 53 + 7\<close>
  lie halfway between two of them and go to the one with the even significand,
  \<open>2 ^ 53 + 1\<close> goes to \<open>2 ^ 53\<close>.
\<close>

lemma big_double:
  "round_double (2 ^ 53 + 6) = Finite (2 ^ 53 + 6)"
  "round_double (2 ^ 53 + 4) = Finite (2 ^ 53 + 4)"
  "round_double (2 ^ 53 + 2) = Finite (2 ^ 53 + 2)"
  using round_double_eval [of 53 "2 ^ 53 + 6" "2 ^ 52 + 3"]
        round_double_eval [of 53 "2 ^ 53 + 4" "2 ^ 52 + 2"]
        round_double_eval [of 53 "2 ^ 53 + 2" "2 ^ 52 + 1"]
  by (simp_all add: pow2_def roundHalfEven_def)

lemma big_sub: "js_sub (whole (2 ^ 53 + 6)) (whole 3) = whole (2 ^ 53 + 4)"
  using round_double_eval [of 53 "2 ^ 53 + 3" "2 ^ 52 + 2"]
  by (simp add: whole_def js_sub_def pow2_def roundHalfEven_def)

lemma big_add: "js_add (whole 3) (whole (2 ^ 53 + 4)) = whole (2 ^ 53 + 8)"
  using round_double_eval [of 53 "2 ^ 53 + 7" "2 ^ 52 + 4"]
  by (simp add: whole_def pow2_def roundHalfEven_def)

lemma big_round_trip:
  "js_sub (whole (2 ^ 53 + 2)) (whole 1) = whole (2 ^ 53)"
  "js_add (whole 1) (whole (2 ^ 53)) = whole (2 ^ 53)"
  using round_double_eval [of 53 "2 ^ 53 + 1" "2 ^ 52"]
  by (simp_all add: whole_def js_sub_def pow2_def roundHalfEven_def)

text \<open>
  The doubles that the literals \<^verbatim>\<open>1.7\<close>, \<^verbatim>\<open>0.6\<close>, \<^verbatim>\<open>1.1\<close>, \<^verbatim>\<open>0.1\<close>
  and \<^verbatim>\<open>0.2\<close> denote are \<open>7656119366529843 / 2 ^ 52\<close>,
  \<open>5404319552844595 / 2 ^ 53\<close>, \<open>2476979795053773 / 2 ^ 51\<close>,
  \<open>3602879701896397 / 2 ^ 55\<close> and \<open>3602879701896397 / 2 ^ 54\<close>.
\<close>

lemma fraction_double:
  "round_double (7656119366529843 / 2 ^ 52) = Finite (7656119366529843 / 2 ^ 52)"
  "round_double (5404319552844595 / 2 ^ 53) = Finite (5404319552844595 / 2 ^ 53)"
  "round_double (2476979795053773 / 2 ^ 51) = Finite (2476979795053773 / 2 ^ 51)"
  "round_double (3602879701896397 / 2 ^ 55) = Finite (3602879701896397 / 2 ^ 55)"
  "round_double (3602879701896397 / 2 ^ 54) = Finite (3602879701896397 / 2 ^ 54)"
  using round_double_eval [of 0 "7656119366529843 / 2 ^ 52" 7656119366529843]
        round_double_eval [of "- 1" "5404319552844595 / 2 ^ 53" 5404319552844595]
        round_double_eval [of 0 "2476979795053773 / 2 ^ 51" 4953959590107546]
        round_double_eval [of "- 4" "3602879701896397 / 2 ^ 55" 7205759403792794]
        round_double_eval [of "- 3" "3602879701896397 / 2 ^ 54" 7205759403792794]
  by (simp_all add: pow2_def roundHalfEven_def)

lemma fraction_sub:
  "js_sub (Finite (7656119366529843 / 2 ^ 52)) (Finite (5404319552844595 / 2 ^ 53)) =
     Finite (2476979795053773 / 2 ^ 51)"
  using round_double_eval [of 0 "7656119366529843 / 2 ^ 52 - 5404319552844595 / 2 ^ 53"
      4953959590107546]
  by (simp add: js_sub_def pow2_def roundHalfEven_def)

lemma fraction_add:
  "js_add (Finite (5404319552844595 / 2 ^ 53)) (Finite (2476979795053773 / 2 ^ 51)) =
     Finite (1914029841632461 / 2 ^ 50)"
  using round_double_eval [of 0 "5404319552844595 / 2 ^ 53 + 2476979795053773 / 2 ^ 51"
      7656119366529844]
  by (simp add: pow2_def roundHalfEven_def)

lemma tenth_round_trip:
  "js_sub (whole 10) (Finite (3602879701896397 / 2 ^ 55)) = Finite (5573204538870989 / 2 ^ 49)"
  "js_add (Finite (3602879701896397 / 2 ^ 55)) (Finite (3602879701896397 / 2 ^ 54)) =
     Finite (5404319552844596 / 2 ^ 54)"
  "js_sub (Finite (5404319552844596 / 2 ^ 54)) (Finite (3602879701896397 / 2 ^ 54)) =
     Finite (7205759403792796 / 2 ^ 56)"
  using round_double_eval [of 3 "10 - 3602879701896397 / 2 ^ 55" 5573204538870989]
        round_double_eval [of "- 2" "3602879701896397 / 2 ^ 55 + 3602879701896397 / 2 ^ 54"
          5404319552844596]
        round_double_eval [of "- 4" "5404319552844596 / 2 ^ 54 - 3602879701896397 / 2 ^ 54"
          7205759403792796]
  by (simp_all add: whole_def js_sub_def pow2_def roundHalfEven_def)

section \<open>Validation of a saved document\<close>

lemma validationErrors_stockDoc:
  "validationErrors (stockDoc c r) =
     (if js_ge c (Finite 0) then [] else [''currentStock'']) @
     (if js_ge r (Finite 0) then [] else [''reservedStock''])"
  by (simp add: validationErrors_def stockDoc_def)

lemma validationErrors_reserved:
  "validationErrors doc = [] \<Longrightarrow>
   validationErrors (doc\<lparr>reservedStock := r\<rparr>) =
     (if js_ge r (Finite 0) then [] else [''reservedStock''])"
  by (simp add: validationErrors_def split: if_splits)

lemma validationErrors_both:
  "validationErrors doc = [] \<Longrightarrow>
   validationErrors (doc\<lparr>reservedStock := r, currentStock := c\<rparr>) =
     (if js_ge c (Finite 0) then [] else [''currentStock'']) @
     (if js_ge r (Finite 0) then [] else [''reservedStock''])"
  by (simp add: validationErrors_def split: if_splits)

lemma stockDoc_update [simp]:
  "(stockDoc c r)\<lparr>reservedStock := r'\<rparr> = stockDoc c r'"
  "(stockDoc c r)\<lparr>currentStock := c'\<rparr> = stockDoc c' r"
  "currentStock (stockDoc c r) = c" "reservedStock (stockDoc c r) = r"
  by (simp_all add: stockDoc_def)

section \<open>Stock reservation\<close>

text \<open>
  C1, as stated, has \<^verbatim>\<open>reserveStock(qty)\<close> succeed whenever
  \<open>currentStock - reservedStock \<ge> qty\<close>, and never throw. With 10 on hand and 4
  reserved, a valid record, \<^verbatim>\<open>reserveStock(-5)\<close> finds \<open>6 \<ge> -5\<close>, sets
  \<open>reservedStock\<close> to \<open>-1\<close>, and \<^verbatim>\<open>save()\<close> rejects the document: the call
  throws a \<^verbatim>\<open>ValidationError\<close> on the path \<open>reservedStock\<close>.
\<close>

theorem reserveStock_throws_counterexample:
  "validationErrors (stockDoc (whole 10) (whole 4)) = [] \<and>
   js_ge (js_sub (whole 10) (whole 4)) (whole (- 5)) \<and>
   reserveStock (stockDoc (whole 10) (whole 4)) (whole (- 5)) =
     (Inl (ValidationError [''reservedStock'']), stockDoc (whole 10) (whole (- 1)))"
  using js_sub_whole [of 10 4] js_add_whole [of 4 "- 5"]
  by (simp add: reserveStock_def validationErrors_stockDoc assignNumber_def save_def)

text \<open>
  C1, amended: for every inventory record and every quantity, with the arithmetic and the
  comparisons of JavaScript numbers, \<^verbatim>\<open>reserveStock(qty)\<close> succeeds (returns
  \<^verbatim>\<open>true\<close>, \<open>reservedStock\<close> incremented by \<open>qty\<close>) if and only if
  \<open>currentStock - reservedStock \<ge> qty\<close> and the record with the incremented
  \<open>reservedStock\<close> passes the validation of \<^verbatim>\<open>save()\<close>; on a record that was
  valid, that is if and only if \<open>reservedStock + qty \<ge> 0\<close>. When
  \<open>currentStock - reservedStock \<ge> qty\<close> and the validation fails, it throws a
  \<^verbatim>\<open>ValidationError\<close>. When \<open>currentStock - reservedStock \<ge> qty\<close> does not
  hold it returns \<^verbatim>\<open>false\<close>, does not throw and changes nothing.
\<close>

theorem reserveStock_succeeds_iff_available_and_valid:
  "(fst (reserveStock doc q) = Inr True \<longleftrightarrow>
      js_ge (js_sub (currentStock doc) (reservedStock doc)) q \<and>
      validationErrors (doc\<lparr>reservedStock := js_add (reservedStock doc) q\<rparr>) = []) \<and>
   (fst (reserveStock doc q) = Inr True \<longrightarrow>
      snd (reserveStock doc q) = doc\<lparr>reservedStock := js_add (reservedStock doc) q\<rparr>) \<and>
   (\<not> js_ge (js_sub (currentStock doc) (reservedStock doc)) q \<longrightarrow>
      reserveStock doc q = (Inr False, doc)) \<and>
   (js_ge (js_sub (currentStock doc) (reservedStock doc)) q \<and>
    validationErrors (doc\<lparr>reservedStock := js_add (reservedStock doc) q\<rparr>) \<noteq> [] \<longrightarrow>
      (\<exists>ps. fst (reserveStock doc q) = Inl (ValidationError ps))) \<and>
   (validationErrors doc = [] \<longrightarrow>
      (validationErrors (doc\<lparr>reservedStock := js_add (reservedStock doc) q\<rparr>) = [] \<longleftrightarrow>
       js_ge (js_add (reservedStock doc) q) (Finite 0)))"
proof -
  let ?doc' = "doc\<lparr>reservedStock := js_add (reservedStock doc) q\<rparr>"
  have nan: "validationErrors ?doc' \<noteq> []" if "js_add (reservedStock doc) q = NaN"
    using that by (simp add: validationErrors_def js_ge_def)
  have granted: "reserveStock doc q =
      (if js_add (reservedStock doc) q = NaN
       then (Inl (ValidationError (''reservedStock'' # validationErrors doc)), doc)
       else if validationErrors ?doc' = [] then (Inr True, ?doc')
       else (Inl (ValidationError (validationErrors ?doc')), ?doc'))"
    if "js_ge (js_sub (currentStock doc) (reservedStock doc)) q"
    using that by (simp add: reserveStock_def assignNumber_def save_def Let_def)
  have refused: "reserveStock doc q = (Inr False, doc)"
    if "\<not> js_ge (js_sub (currentStock doc) (reservedStock doc)) q"
    using that by (simp add: reserveStock_def)
  have valid: "validationErrors ?doc' = [] \<longleftrightarrow> js_ge (js_add (reservedStock doc) q) (Finite 0)"
    if "validationErrors doc = []"
    using that by (simp add: validationErrors_reserved)
  show ?thesis
  proof (cases "js_ge (js_sub (currentStock doc) (reservedStock doc)) q")
    case True
    from granted [OF True] nan valid show ?thesis
      using True by (cases "js_add (reservedStock doc) q = NaN") auto
  next
    case False
    from refused [OF False] valid show ?thesis
      using False by auto
  qed
qed

text \<open>
  With 10 on hand and 4 reserved: reserving 6 succeeds and brings the reservation to 10,
  reserving 7 is refused, reserving -5 throws.
\<close>

theorem reserveStock_succeeds_iff_available_and_valid_witness:
  "reserveStock (stockDoc (whole 10) (whole 4)) (whole 6) =
     (Inr True, stockDoc (whole 10) (whole 10)) \<and>
   reserveStock (stockDoc (whole 10) (whole 4)) (whole 7) =
     (Inr False, stockDoc (whole 10) (whole 4)) \<and>
   (\<exists>ps. fst (reserveStock (stockDoc (whole 10) (whole 4)) (whole (- 5))) =
     Inl (ValidationError ps))"
proof -
  have a: "js_sub (whole 10) (whole 4) = whole 6" using js_sub_whole [of 10 4] by simp
  have b: "js_add (whole 4) (whole 6) = whole 10" using js_add_whole [of 4 6] by simp
  have c: "js_add (whole 4) (whole (- 5)) = whole (- 1)"
    using js_add_whole [of 4 "- 5"] by simp
  from reserveStock_succeeds_iff_available_and_valid
         [of "stockDoc (whole 10) (whole 4)" "whole 6"]
       reserveStock_succeeds_iff_available_and_valid
         [of "stockDoc (whole 10) (whole 4)" "whole 7"]
       reserveStock_succeeds_iff_available_and_valid
         [of "stockDoc (whole 10) (whole 4)" "whole (- 5)"]
  show ?thesis
    by (simp add: a b c validationErrors_stockDoc prod_eq_iff)
qed

text \<open>
  C2, as stated, keeps \<open>reservedStock \<le> currentStock\<close> on every record and for every
  quantity. The counters are doubles and both the test and the increment round. With
  \<open>2 ^ 53 + 6\<close> on hand and 3 reserved, the available stock \<open>2 ^ 53 + 3\<close> rounds to
  \<open>2 ^ 53 + 4\<close>, so \<^verbatim>\<open>reserveStock(2 ^ 53 + 4)\<close> is granted, and the new
  reservation \<open>2 ^ 53 + 7\<close> rounds to \<open>2 ^ 53 + 8\<close>, more than is on hand. With 1.7 on
  hand and 0.6 reserved, \<^verbatim>\<open>reserveStock(1.1)\<close> is granted and leaves
  1.7000000000000002 reserved. Both records are valid and every number in them is a
  double.
\<close>

theorem reserveStock_rounding_counterexample:
  "round_double (2 ^ 53 + 6) = Finite (2 ^ 53 + 6) \<and>
   round_double (2 ^ 53 + 4) = Finite (2 ^ 53 + 4) \<and>
   validationErrors (stockDoc (whole (2 ^ 53 + 6)) (whole 3)) = [] \<and>
   js_ge (whole (2 ^ 53 + 6)) (whole 3) \<and>
   reserveStock (stockDoc (whole (2 ^ 53 + 6)) (whole 3)) (whole (2 ^ 53 + 4)) =
     (Inr True, stockDoc (whole (2 ^ 53 + 6)) (whole (2 ^ 53 + 8))) \<and>
   js_lt (whole (2 ^ 53 + 6)) (whole (2 ^ 53 + 8)) \<and>
   round_double (7656119366529843 / 2 ^ 52) = Finite (7656119366529843 / 2 ^ 52) \<and>
   round_double (5404319552844595 / 2 ^ 53) = Finite (5404319552844595 / 2 ^ 53) \<and>
   round_double (2476979795053773 / 2 ^ 51) = Finite (2476979795053773 / 2 ^ 51) \<and>
   validationErrors (stockDoc (Finite (7656119366529843 / 2 ^ 52))
     (Finite (5404319552844595 / 2 ^ 53))) = [] \<and>
   js_ge (Finite (7656119366529843 / 2 ^ 52)) (Finite (5404319552844595 / 2 ^ 53)) \<and>
   reserveStock
       (stockDoc (Finite (7656119366529843 / 2 ^ 52)) (Finite (5404319552844595 / 2 ^ 53)))
       (Finite (2476979795053773 / 2 ^ 51)) =
     (Inr True,
      stockDoc (Finite (7656119366529843 / 2 ^ 52)) (Finite (1914029841632461 / 2 ^ 50))) \<and>
   js_lt (Finite (7656119366529843 / 2 ^ 52)) (Finite (1914029841632461 / 2 ^ 50))"
proof -
  have big: "validationErrors (stockDoc (whole (2 ^ 53 + 6)) (whole 3)) = [] \<and>
   js_ge (whole (2 ^ 53 + 6)) (whole 3) \<and>
   reserveStock (stockDoc (whole (2 ^ 53 + 6)) (whole 3)) (whole (2 ^ 53 + 4)) =
     (Inr True, stockDoc (whole (2 ^ 53 + 6)) (whole (2 ^ 53 + 8))) \<and>
   js_lt (whole (2 ^ 53 + 6)) (whole (2 ^ 53 + 8))"
    by (simp add: reserveStock_def big_sub [simplified] big_add [simplified]
        validationErrors_stockDoc assignNumber_def save_def)
  have fraction: "validationErrors (stockDoc (Finite (7656119366529843 / 2 ^ 52))
     (Finite (5404319552844595 / 2 ^ 53))) = [] \<and>
   js_ge (Finite (7656119366529843 / 2 ^ 52)) (Finite (5404319552844595 / 2 ^ 53)) \<and>
   reserveStock
       (stockDoc (Finite (7656119366529843 / 2 ^ 52)) (Finite (5404319552844595 / 2 ^ 53)))
       (Finite (2476979795053773 / 2 ^ 51)) =
     (Inr True,
      stockDoc (Finite (7656119366529843 / 2 ^ 52)) (Finite (1914029841632461 / 2 ^ 50))) \<and>
   js_lt (Finite (7656119366529843 / 2 ^ 52)) (Finite (1914029841632461 / 2 ^ 50))"
    by (simp add: reserveStock_def fraction_sub [simplified] fraction_add [simplified]
        validationErrors_stockDoc assignNumber_def save_def js_ge_def)
  from big fraction big_double(1,2) fraction_double(1-3) show ?thesis by blast
qed

text \<open>
  C2, amended: on every record whose counters are whole numbers of magnitude at most
  \<open>2 ^ 53\<close> with \<open>reservedStock \<le> currentStock\<close>, and for every whole quantity of
  magnitude at most \<open>2 ^ 53\<close>, the document that \<^verbatim>\<open>reserveStock(qty)\<close> leaves
  still has \<open>reservedStock \<le> currentStock\<close>, whether the reservation is granted,
  refused or rejected by the validation.
\<close>

theorem reserveStock_keeps_reserved_le_current:
  assumes "currentStock doc = whole c" "reservedStock doc = whole r"
      and "r \<le> c" "\<bar>c\<bar> \<le> 2 ^ 53" "\<bar>r\<bar> \<le> 2 ^ 53" "\<bar>k\<bar> \<le> 2 ^ 53"
  shows "js_ge (currentStock (snd (reserveStock doc (whole k))))
           (reservedStock (snd (reserveStock doc (whole k))))"
proof (cases "js_ge (js_sub (whole c) (whole r)) (whole k)")
  case False
  then show ?thesis
    using assms(1-3) by (simp add: reserveStock_def)
next
  case True
  have "\<bar>c - r\<bar> \<le> 2 ^ 54" "\<bar>r + k\<bar> \<le> 2 ^ 54" using assms(4-6) by simp_all
  from js_sub_whole_near [OF this(1)] js_add_whole_near [OF this(2)]
  obtain a s where
    a: "js_sub (whole c) (whole r) = whole a" "\<bar>a - (c - r)\<bar> \<le> 1" and
    s: "js_add (whole r) (whole k) = whole s" "\<bar>s - (r + k)\<bar> \<le> 1"
    by blast
  have "s \<le> c"
  proof (cases "\<bar>c - r\<bar> \<le> 2 ^ 53 \<and> \<bar>r + k\<bar> \<le> 2 ^ 53")
    case True
    then have "a = c - r" "s = r + k"
      using a(1) s(1) by (simp_all add: js_sub_whole js_add_whole)
    with \<open>js_ge (js_sub (whole c) (whole r)) (whole k)\<close> a(1) show ?thesis by simp
  next
    case outside: False
    show ?thesis
    proof (cases "2 ^ 53 < c - r")
      case True
      then have below: "r + k \<le> c - 1" using assms(6) by linarith
      have "r + k \<le> 2 ^ 53" using True assms(4,6) by linarith
      show ?thesis
      proof (cases "- (2 ^ 53) \<le> r + k")
        case True
        with \<open>r + k \<le> 2 ^ 53\<close> have "\<bar>r + k\<bar> \<le> 2 ^ 53" by linarith
        then have "s = r + k" using s(1) by (simp add: js_add_whole)
        with below show ?thesis by simp
      next
        case False
        then have "s \<le> - (2 ^ 53)" using s(2) by linarith
        with assms(4) show ?thesis by linarith
      qed
    next
      case False
      with assms(3) have exact: "\<bar>c - r\<bar> \<le> 2 ^ 53" by linarith
      then have "a = c - r" using a(1) by (simp add: js_sub_whole)
      with \<open>js_ge (js_sub (whole c) (whole r)) (whole k)\<close> a(1) have "k \<le> c - r" by simp
      with assms(4) have "r + k \<le> 2 ^ 53" by linarith
      with outside exact have "r + k < - (2 ^ 53)" by linarith
      then have "s \<le> - (2 ^ 53)" using s(2) by linarith
      with assms(4) show ?thesis by linarith
    qed
  qed
  with True show ?thesis
    using assms(1,2) s(1)
    by (simp add: reserveStock_def assignNumber_def Let_def split: sum.splits)
qed

theorem reserveStock_keeps_reserved_le_current_witness:
  "reserveStock (stockDoc (whole 10) (whole 4)) (whole 6) =
     (Inr True, stockDoc (whole 10) (whole 10)) \<and>
   js_ge (currentStock (snd (reserveStock (stockDoc (whole 10) (whole 4)) (whole 6))))
     (reservedStock (snd (reserveStock (stockDoc (whole 10) (whole 4)) (whole 6))))"
proof -
  have a: "js_sub (whole 10) (whole 4) = whole 6" using js_sub_whole [of 10 4] by simp
  have b: "js_add (whole 4) (whole 6) = whole 10" using js_add_whole [of 4 6] by simp
  have r: "reserveStock (stockDoc (whole 10) (whole 4)) (whole 6) =
     (Inr True, stockDoc (whole 10) (whole 10))"
    by (simp add: reserveStock_def a b validationErrors_stockDoc assignNumber_def save_def)
  from reserveStock_keeps_reserved_le_current
         [of "stockDoc (whole 10) (whole 4)" 10 4 6] r
  show ?thesis by simp
qed

text \<open>
  C3, as stated, has \<^verbatim>\<open>confirmReservedStock(qty)\<close> take \<open>qty\<close> off both counters
  whenever \<open>reservedStock < qty\<close> does not hold. With 3 on hand and 4 reserved, the valid
  record that \<^verbatim>\<open>updateStock(-7)\<close> leaves of the one with 10 on hand, the call
  \<^verbatim>\<open>confirmReservedStock(4)\<close> passes the test, sets \<open>currentStock\<close> to \<open>-1\<close>,
  and \<^verbatim>\<open>save()\<close> rejects the document: the call throws a
  \<^verbatim>\<open>ValidationError\<close> on the path \<open>currentStock\<close> and nothing is stored.
  And the test of the code is \<open>reservedStock \<ge> qty\<close>: on the quantity \<open>NaN\<close>, for
  which \<open>reservedStock < qty\<close> does not hold either, the call throws
  \<^verbatim>\<open>Insufficient reserved stock\<close>.
\<close>

theorem confirmReservedStock_throws_counterexample:
  "fst (updateStock stockExample 0 (- 7)) = Inr () \<and>
   currentStock (snd (updateStock stockExample 0 (- 7))) = 3 \<and>
   reservedStock (snd (updateStock stockExample 0 (- 7))) = 4 \<and>
   validationErrors (stockDoc (whole 3) (whole 4)) = [] \<and>
   \<not> js_lt (whole 4) (whole 4) \<and>
   confirmReservedStock (stockDoc (whole 3) (whole 4)) (whole 4) =
     (Inl (ValidationError [''currentStock'']), stockDoc (whole (- 1)) (whole 0)) \<and>
   \<not> js_lt (whole 4) NaN \<and>
   confirmReservedStock (stockDoc (whole 10) (whole 4)) NaN =
     (Inl (Error ''Insufficient reserved stock''), stockDoc (whole 10) (whole 4))"
  using js_sub_whole [of 4 4] js_sub_whole [of 3 4]
  by (simp add: confirmReservedStock_def validationErrors_stockDoc assignNumber_def save_def
      updateStock_def stockExample_def Let_def js_ge_def whole_def)

text \<open>
  C3, amended: \<^verbatim>\<open>confirmReservedStock(qty)\<close> throws
  \<^verbatim>\<open>Insufficient reserved stock\<close> unless \<open>reservedStock \<ge> qty\<close>, so whenever
  \<open>reservedStock < qty\<close>, and then leaves the document, so both counters, unchanged. On
  finite counters and a finite quantity with \<open>reservedStock \<ge> qty\<close> it takes \<open>qty\<close> off
  both counters of the document in memory, in the arithmetic of doubles (exactly \<open>qty\<close>
  on whole numbers up to \<open>2 ^ 53\<close>), and saves: the call succeeds if and only if the
  decremented document passes the validation, which on a record that was valid means
  \<open>currentStock - qty \<ge> 0\<close>; otherwise it throws the \<^verbatim>\<open>ValidationError\<close> of
  \<^verbatim>\<open>save()\<close>.
\<close>

theorem confirmReservedStock_checks_then_validates:
  "(\<not> js_ge (reservedStock doc) q \<longrightarrow>
      confirmReservedStock doc q = (Inl (Error ''Insufficient reserved stock''), doc)) \<and>
   (js_lt (reservedStock doc) q \<longrightarrow>
      confirmReservedStock doc q = (Inl (Error ''Insufficient reserved stock''), doc)) \<and>
   (currentStock doc = Finite c \<and> reservedStock doc = Finite r \<and> k \<le> r \<longrightarrow>
      snd (confirmReservedStock doc (Finite k)) =
        doc\<lparr>reservedStock := js_sub (Finite r) (Finite k),
            currentStock := js_sub (Finite c) (Finite k)\<rparr> \<and>
      (fst (confirmReservedStock doc (Finite k)) = Inr () \<longleftrightarrow>
         validationErrors (snd (confirmReservedStock doc (Finite k))) = []) \<and>
      (validationErrors (snd (confirmReservedStock doc (Finite k))) \<noteq> [] \<longrightarrow>
         fst (confirmReservedStock doc (Finite k)) =
           Inl (ValidationError
                  (validationErrors (snd (confirmReservedStock doc (Finite k)))))) \<and>
      (validationErrors doc = [] \<longrightarrow>
         (fst (confirmReservedStock doc (Finite k)) = Inr () \<longleftrightarrow>
            js_ge (js_sub (Finite c) (Finite k)) (Finite 0)))) \<and>
   (currentStock doc = whole ci \<and> reservedStock doc = whole ri \<and> ki \<le> ri \<and>
    \<bar>ri - ki\<bar> \<le> 2 ^ 53 \<and> \<bar>ci - ki\<bar> \<le> 2 ^ 53 \<longrightarrow>
      reservedStock (snd (confirmReservedStock doc (whole ki))) = whole (ri - ki) \<and>
      currentStock (snd (confirmReservedStock doc (whole ki))) = whole (ci - ki))"
proof -
  have refused: "confirmReservedStock doc q = (Inl (Error ''Insufficient reserved stock''), doc)"
    if "\<not> js_ge (reservedStock doc) q"
    using that by (simp add: confirmReservedStock_def)
  have granted: "confirmReservedStock doc (Finite k) =
      (let doc1 = doc\<lparr>reservedStock := js_sub (Finite r) (Finite k),
                      currentStock := js_sub (Finite c) (Finite k)\<rparr>
       in if validationErrors doc1 = [] then (Inr (), doc1)
          else (Inl (ValidationError (validationErrors doc1)), doc1))"
    if "currentStock doc = Finite c" "reservedStock doc = Finite r" "k \<le> r" for c r k
    using that
    by (simp add: confirmReservedStock_def js_ge_def assignNumber_def save_def Let_def
        js_sub_Finite)
  have valid: "validationErrors (doc\<lparr>reservedStock := js_sub (Finite r) (Finite k),
                      currentStock := js_sub (Finite c) (Finite k)\<rparr>) = [] \<longleftrightarrow>
      js_ge (js_sub (Finite c) (Finite k)) (Finite 0)"
    if "validationErrors doc = []" "k \<le> r" for c r k
    using that js_ge_round_nonneg [of "r - k"]
    by (simp add: validationErrors_both js_sub_Finite)
  have whole: "reservedStock (snd (confirmReservedStock doc (whole ki))) = whole (ri - ki) \<and>
      currentStock (snd (confirmReservedStock doc (whole ki))) = whole (ci - ki)"
    if "currentStock doc = whole ci" "reservedStock doc = whole ri" "ki \<le> ri"
       "\<bar>ri - ki\<bar> \<le> 2 ^ 53" "\<bar>ci - ki\<bar> \<le> 2 ^ 53"
    using that granted [of "of_int ci" "of_int ri" "of_int ki"]
      js_sub_whole [of ri ki] js_sub_whole [of ci ki]
    by (simp add: whole_def Let_def)
  show ?thesis
    using refused granted valid whole
    by (auto simp: Let_def dest: js_lt_not_ge)
qed

text \<open>
  With 10 on hand and 4 reserved: confirming 5 is refused, confirming 3 leaves 7 on hand
  and 1 reserved. With 3 on hand and 4 reserved, confirming 4 throws.
\<close>

theorem confirmReservedStock_checks_then_validates_witness:
  "confirmReservedStock (stockDoc (whole 10) (whole 4)) (whole 5) =
     (Inl (Error ''Insufficient reserved stock''), stockDoc (whole 10) (whole 4)) \<and>
   fst (confirmReservedStock (stockDoc (whole 10) (whole 4)) (whole 3)) = Inr () \<and>
   snd (confirmReservedStock (stockDoc (whole 10) (whole 4)) (whole 3)) =
     stockDoc (whole 7) (whole 1) \<and>
   fst (confirmReservedStock (stockDoc (whole 3) (whole 4)) (whole 4)) =
     Inl (ValidationError [''currentStock''])"
proof -
  have a: "js_sub (whole 4) (whole 3) = whole 1" "js_sub (whole 10) (whole 3) = whole 7"
    "js_sub (whole 4) (whole 4) = whole 0" "js_sub (whole 3) (whole 4) = whole (- 1)"
    using js_sub_whole [of 4 3] js_sub_whole [of 10 3] js_sub_whole [of 4 4]
      js_sub_whole [of 3 4] by simp_all
  from confirmReservedStock_checks_then_validates
         [of "stockDoc (whole 10) (whole 4)" "whole 5" 0 0 0 0 0 0]
       confirmReservedStock_checks_then_validates
         [of "stockDoc (whole 10) (whole 4)" "whole 3" 10 4 3 10 4 3]
       confirmReservedStock_checks_then_validates
         [of "stockDoc (whole 3) (whole 4)" "whole 4" 3 4 4 3 4 4]
  show ?thesis
    using a by (simp add: whole_def validationErrors_stockDoc js_ge_def)
qed

text \<open>
  C4, as stated, has \<^verbatim>\<open>releaseReservedStock(qty)\<close> undo every
  \<^verbatim>\<open>reserveStock(qty)\<close> that succeeded. Three records on which it does not: a
  document not yet saved with \<open>-3\<close> reserved, where reserving 5 succeeds and the release
  of 5 stops at 0; the valid record with \<open>2 ^ 53 + 2\<close> on hand and 1 reserved, where
  reserving \<open>2 ^ 53\<close> succeeds with a rounded sum and the release leaves 0; and the valid
  record with 0.1 reserved, where reserving 0.2 and releasing 0.2 leaves
  0.10000000000000003. And on a document with \<open>-Infinity\<close> reserved the release sets
  \<open>reservedStock\<close> to 0, where \<open>reservedStock - min(qty, reservedStock)\<close> is \<open>NaN\<close>.
\<close>

theorem release_round_trip_counterexample:
  "reserveStock (stockDoc (whole 10) (whole (- 3))) (whole 5) =
     (Inr True, stockDoc (whole 10) (whole 2)) \<and>
   reservedStock (snd (releaseReservedStock (stockDoc (whole 10) (whole 2)) (whole 5))) =
     whole 0 \<and>
   round_double (2 ^ 53 + 2) = Finite (2 ^ 53 + 2) \<and>
   validationErrors (stockDoc (whole (2 ^ 53 + 2)) (whole 1)) = [] \<and>
   reserveStock (stockDoc (whole (2 ^ 53 + 2)) (whole 1)) (whole (2 ^ 53)) =
     (Inr True, stockDoc (whole (2 ^ 53 + 2)) (whole (2 ^ 53))) \<and>
   reservedStock (snd (releaseReservedStock (stockDoc (whole (2 ^ 53 + 2)) (whole (2 ^ 53)))
     (whole (2 ^ 53)))) = whole 0 \<and>
   round_double (3602879701896397 / 2 ^ 55) = Finite (3602879701896397 / 2 ^ 55) \<and>
   round_double (3602879701896397 / 2 ^ 54) = Finite (3602879701896397 / 2 ^ 54) \<and>
   validationErrors (stockDoc (whole 10) (Finite (3602879701896397 / 2 ^ 55))) = [] \<and>
   reserveStock (stockDoc (whole 10) (Finite (3602879701896397 / 2 ^ 55)))
       (Finite (3602879701896397 / 2 ^ 54)) =
     (Inr True, stockDoc (whole 10) (Finite (5404319552844596 / 2 ^ 54))) \<and>
   reservedStock (snd (releaseReservedStock
       (stockDoc (whole 10) (Finite (5404319552844596 / 2 ^ 54)))
       (Finite (3602879701896397 / 2 ^ 54)))) = Finite (7205759403792796 / 2 ^ 56) \<and>
   Finite (7205759403792796 / 2 ^ 56) \<noteq> Finite (3602879701896397 / 2 ^ 55) \<and>
   reservedStock (snd (releaseReservedStock (stockDoc (whole 10) NegInf) (whole 1))) =
     Finite 0 \<and>
   js_sub NegInf (js_min (whole 1) NegInf) = NaN"
proof -
  have a: "js_sub (whole 10) (whole (- 3)) = whole 13"
    "js_add (whole (- 3)) (whole 5) = whole 2"
    "js_sub (whole 2) (whole 5) = whole (- 3)"
    "js_sub (whole (2 ^ 53)) (whole (2 ^ 53)) = whole 0"
    using js_sub_whole [of 10 "- 3"] js_add_whole [of "- 3" 5] js_sub_whole [of 2 5]
      js_sub_whole [of "2 ^ 53" "2 ^ 53"] by simp_all
  have unsaved: "reserveStock (stockDoc (whole 10) (whole (- 3))) (whole 5) =
     (Inr True, stockDoc (whole 10) (whole 2)) \<and>
   reservedStock (snd (releaseReservedStock (stockDoc (whole 10) (whole 2)) (whole 5))) =
     whole 0"
    by (simp add: reserveStock_def releaseReservedStock_def a validationErrors_stockDoc
        assignNumber_def save_def js_max_zero_whole split: sum.splits)
  have big: "validationErrors (stockDoc (whole (2 ^ 53 + 2)) (whole 1)) = [] \<and>
   reserveStock (stockDoc (whole (2 ^ 53 + 2)) (whole 1)) (whole (2 ^ 53)) =
     (Inr True, stockDoc (whole (2 ^ 53 + 2)) (whole (2 ^ 53))) \<and>
   reservedStock (snd (releaseReservedStock (stockDoc (whole (2 ^ 53 + 2)) (whole (2 ^ 53)))
     (whole (2 ^ 53)))) = whole 0"
    using js_max_zero_whole [of 0]
    by (simp add: reserveStock_def releaseReservedStock_def a [simplified]
        big_round_trip [simplified] validationErrors_stockDoc assignNumber_def save_def
        split: sum.splits)
  have fraction:
    "validationErrors (stockDoc (whole 10) (Finite (3602879701896397 / 2 ^ 55))) = [] \<and>
   reserveStock (stockDoc (whole 10) (Finite (3602879701896397 / 2 ^ 55)))
       (Finite (3602879701896397 / 2 ^ 54)) =
     (Inr True, stockDoc (whole 10) (Finite (5404319552844596 / 2 ^ 54))) \<and>
   reservedStock (snd (releaseReservedStock
       (stockDoc (whole 10) (Finite (5404319552844596 / 2 ^ 54)))
       (Finite (3602879701896397 / 2 ^ 54)))) = Finite (7205759403792796 / 2 ^ 56) \<and>
   Finite (7205759403792796 / 2 ^ 56) \<noteq> Finite (3602879701896397 / 2 ^ 55)"
    by (simp add: reserveStock_def releaseReservedStock_def tenth_round_trip [simplified]
        validationErrors_stockDoc assignNumber_def save_def js_ge_def js_max_def
        js_lt_whole_zero split: sum.splits)
  have infinite:
    "reservedStock (snd (releaseReservedStock (stockDoc (whole 10) NegInf) (whole 1))) =
     Finite 0 \<and>
   js_sub NegInf (js_min (whole 1) NegInf) = NaN"
    by (simp add: releaseReservedStock_def js_sub_def js_max_def js_min_def whole_def
        assignNumber_def Let_def split: sum.splits)
  from unsaved big fraction infinite big_double(3) fraction_double(4,5) show ?thesis
    by blast
qed

text \<open>
  C4, amended: on every record with a finite \<open>reservedStock\<close> and for every finite
  quantity, \<^verbatim>\<open>releaseReservedStock(qty)\<close> sets \<open>reservedStock\<close> to
  \<open>reservedStock - min(qty, reservedStock)\<close>, in the arithmetic of doubles, which is
  never negative. On every record whose \<open>reservedStock\<close> is a whole number with
  \<open>0 \<le> reservedStock \<le> 2 ^ 53\<close> and for every whole quantity with
  \<open>\<bar>reservedStock + qty\<bar> \<le> 2 ^ 53\<close> for which \<^verbatim>\<open>reserveStock(qty)\<close> succeeds, a
  subsequent \<^verbatim>\<open>releaseReservedStock(qty)\<close> brings \<open>reservedStock\<close> back to the
  value it had before the reservation.
\<close>

theorem releaseReservedStock_clamps_and_undoes_reserve:
  "(reservedStock doc = Finite r \<longrightarrow>
      reservedStock (snd (releaseReservedStock doc (Finite k))) =
        js_sub (Finite r) (js_min (Finite k) (Finite r)) \<and>
      js_ge (reservedStock (snd (releaseReservedStock doc (Finite k)))) (Finite 0)) \<and>
   (reservedStock doc = whole ri \<and> 0 \<le> ri \<and> ri \<le> 2 ^ 53 \<and> \<bar>ri + n\<bar> \<le> 2 ^ 53 \<and>
    fst (reserveStock doc (whole n)) = Inr True \<longrightarrow>
      reservedStock (snd (releaseReservedStock (snd (reserveStock doc (whole n))) (whole n))) =
        whole ri)"
proof -
  have rel: "reservedStock (snd (releaseReservedStock d (Finite y))) =
      js_max (Finite 0) (round_double (x - y))" if "reservedStock d = Finite x" for d x y
  proof -
    have "js_max (Finite 0) (round_double (x - y)) \<noteq> NaN"
      by (simp add: js_max_zero_round)
    with that show ?thesis
      by (simp add: releaseReservedStock_def assignNumber_def js_sub_Finite Let_def
          split: sum.splits)
  qed
  have clamp: "reservedStock (snd (releaseReservedStock doc (Finite k))) =
        js_sub (Finite r) (js_min (Finite k) (Finite r)) \<and>
      js_ge (reservedStock (snd (releaseReservedStock doc (Finite k)))) (Finite 0)"
    if "reservedStock doc = Finite r"
  proof (cases "k \<le> r")
    case True
    then show ?thesis
      using rel [OF that, of k] js_ge_round_nonneg [of "r - k"]
      by (simp add: js_min_Finite js_sub_Finite js_max_zero_round)
  next
    case False
    then show ?thesis
      using rel [OF that, of k]
      by (simp add: js_min_Finite js_sub_Finite js_max_zero_round round_double_zero
          js_ge_def)
  qed
  have trip:
    "reservedStock (snd (releaseReservedStock (snd (reserveStock doc (whole n))) (whole n))) =
        whole ri"
    if "reservedStock doc = whole ri" "0 \<le> ri" "ri \<le> 2 ^ 53" "\<bar>ri + n\<bar> \<le> 2 ^ 53"
       "fst (reserveStock doc (whole n)) = Inr True"
  proof -
    have add: "js_add (whole ri) (whole n) = whole (ri + n)"
      using that(4) by (rule js_add_whole)
    from that(5) have g: "js_ge (js_sub (currentStock doc) (reservedStock doc)) (whole n)"
      by (auto simp: reserveStock_def split: if_splits)
    then have doc1: "snd (reserveStock doc (whole n)) = doc\<lparr>reservedStock := whole (ri + n)\<rparr>"
      using that(1)
      by (simp add: reserveStock_def add assignNumber_def Let_def split: sum.splits)
    have "round_double (real_of_int (ri + n) - real_of_int n) = Finite (of_int ri)"
      using round_double_of_int [of ri] that(2,3) by simp
    then have "reservedStock (snd (releaseReservedStock
        (doc\<lparr>reservedStock := whole (ri + n)\<rparr>) (whole n))) = whole ri"
      using rel [of "doc\<lparr>reservedStock := whole (ri + n)\<rparr>" "of_int (ri + n)" "of_int n"]
        that(2)
      by (simp add: whole_def js_max_def)
    then show ?thesis unfolding doc1 .
  qed
  from clamp trip show ?thesis by blast
qed

text \<open>
  With 10 on hand and 4 reserved: releasing 9 leaves 0 reserved; reserving 6 and then
  releasing 6 leaves 4.
\<close>

theorem releaseReservedStock_clamps_and_undoes_reserve_witness:
  "reservedStock (snd (releaseReservedStock (stockDoc (whole 10) (whole 4)) (whole 9))) =
     whole 0 \<and>
   fst (reserveStock (stockDoc (whole 10) (whole 4)) (whole 6)) = Inr True \<and>
   reservedStock (snd (reserveStock (stockDoc (whole 10) (whole 4)) (whole 6))) = whole 10 \<and>
   reservedStock (snd (releaseReservedStock
     (snd (reserveStock (stockDoc (whole 10) (whole 4)) (whole 6))) (whole 6))) = whole 4"
proof -
  have a: "js_sub (whole 10) (whole 4) = whole 6" "js_add (whole 4) (whole 6) = whole 10"
    "js_sub (whole 4) (whole 4) = whole 0"
    using js_sub_whole [of 10 4] js_add_whole [of 4 6] js_sub_whole [of 4 4] by simp_all
  have r: "reserveStock (stockDoc (whole 10) (whole 4)) (whole 6) =
     (Inr True, stockDoc (whole 10) (whole 10))"
    by (simp add: reserveStock_def a validationErrors_stockDoc assignNumber_def save_def)
  from releaseReservedStock_clamps_and_undoes_reserve
         [of "stockDoc (whole 10) (whole 4)" 4 9 4 6]
       r a
  show ?thesis
    by (simp add: whole_def js_min_Finite js_sub_Finite)
qed

section \<open>Stock updates\<close>



section \<open>Price with discounts\<close>








section \<open>Order status\<close>







section \<open>Authentication\<close>




subsection \<open>The tokens of the specification\<close>








subsection \<open>Alice logs in and rotates her token\<close>








text \<open>
  What the controller makes of the error \<^verbatim>\<open>Invalid email or password\<close>: status
  401 (the message does not contain \<open>deactivated\<close>) and the message itself.
\<close>

lemma controller_login_error:
  "AuthService_login jwt bc st now d = (Inl (Error ''Invalid email or password''), st') \<Longrightarrow>
   controller_login jwt bc st now d =
     (\<lparr>statusCode = 401, success = False, res_message = ''Invalid email or password'',
       res_data = None\<rparr>, st')"
  by (simp add: controller_login_def)

text \<open>
  C9. For every password \<open>p\<close>: when the email \<open>e1\<close> belongs to no user and the email
  \<open>e2\<close> belongs to an active user for whom \<open>p\<close> is wrong, the two logins throw the same
  error, \<^verbatim>\<open>Invalid email or password\<close>, change nothing, and the controller sends
  the same response for both (status 401 with that message). \<^verbatim>\<open>login\<close> throws the deactivation error if and only
  if the account exists and is inactive.
\<close>

theorem login_failures_not_distinguishable:
  "(findOneByEmail st e1 = None \<and> findOneByEmail st e2 = Some u \<and> isActive u \<and>
    \<not> comparePassword bc u p \<longrightarrow>
      AuthService_login jwt bc st now \<lparr>login_email = e1, login_password = p\<rparr> =
        (Inl (Error ''Invalid email or password''), st) \<and>
      AuthService_login jwt bc st now \<lparr>login_email = e2, login_password = p\<rparr> =
        (Inl (Error ''Invalid email or password''), st) \<and>
      controller_login jwt bc st now \<lparr>login_email = e1, login_password = p\<rparr> =
        (\<lparr>statusCode = 401, success = False, res_message = ''Invalid email or password'',
          res_data = None\<rparr>, st) \<and>
      controller_login jwt bc st now \<lparr>login_email = e2, login_password = p\<rparr> =
        controller_login jwt bc st now \<lparr>login_email = e1, login_password = p\<rparr>) \<and>
   (fst (AuthService_login jwt bc st now d) =
      Inl (Error ''Account is deactivated. Please contact support.'') \<longleftrightarrow>
    (\<exists>v. findOneByEmail st (login_email d) = Some v \<and> \<not> isActive v))"
proof -
  have deact: "fst (AuthService_login jwt bc st now d) =
      Inl (Error ''Account is deactivated. Please contact support.'') \<longleftrightarrow>
    (\<exists>v. findOneByEmail st (login_email d) = Some v \<and> \<not> isActive v)"
    by (auto simp: AuthService_login_def Let_def split: option.splits)
  have same: "AuthService_login jwt bc st now \<lparr>login_email = e1, login_password = p\<rparr> =
        (Inl (Error ''Invalid email or password''), st) \<and>
      AuthService_login jwt bc st now \<lparr>login_email = e2, login_password = p\<rparr> =
        (Inl (Error ''Invalid email or password''), st)"
    if "findOneByEmail st e1 = None" "findOneByEmail st e2 = Some u" "isActive u"
       "\<not> comparePassword bc u p"
    using that by (simp add: AuthService_login_def)
  from deact same show ?thesis
    by (simp add: controller_login_error)
qed

text \<open>
  No user has Carol's email; Alice is active and \<open>''guess''\<close> is not her password; Bob is
  inactive.
\<close>

theorem login_failures_not_distinguishable_witness:
  "findOneByEmail authExample ''carol@example.com'' = None \<and>
   findOneByEmail authExample ''alice@example.com'' = Some alice \<and> isActive alice \<and>
   \<not> comparePassword toyCompare alice ''guess'' \<and>
   AuthService_login toyJwt toyCompare authExample 7
       \<lparr>login_email = ''carol@example.com'', login_password = ''guess''\<rparr> =
     (Inl (Error ''Invalid email or password''), authExample) \<and>
   AuthService_login toyJwt toyCompare authExample 7
       \<lparr>login_email = ''alice@example.com'', login_password = ''guess''\<rparr> =
     (Inl (Error ''Invalid email or password''), authExample) \<and>
   fst (AuthService_login toyJwt toyCompare authExample 7
       \<lparr>login_email = ''bob@example.com'', login_password = ''hunter2''\<rparr>) =
     Inl (Error ''Account is deactivated. Please contact support.'')"
proof -
  have h: "findOneByEmail authExample ''carol@example.com'' = None \<and>
     findOneByEmail authExample ''alice@example.com'' = Some alice \<and> isActive alice \<and>
     \<not> comparePassword toyCompare alice ''guess''"
    by (simp add: findOneByEmail_def authExample_def alice_def bob_def comparePassword_def
        toyCompare_def toLowerCase_def trim_def toLowerChar_def isWhiteSpace_def)
  have b: "\<exists>v. findOneByEmail authExample
        (login_email \<lparr>login_email = ''bob@example.com'', login_password = ''hunter2''\<rparr>) =
          Some v \<and> \<not> isActive v"
    by (simp add: findOneByEmail_def authExample_def alice_def bob_def
        toLowerCase_def trim_def toLowerChar_def isWhiteSpace_def)
  from h b
    login_failures_not_distinguishable [of authExample "''carol@example.com''"
      "''alice@example.com''" alice toyCompare "''guess''" toyJwt 7
      "\<lparr>login_email = ''bob@example.com'', login_password = ''hunter2''\<rparr>"]
  show ?thesis by simp
qed


end
